theory Spec2Isabelle
  imports Main "HOL-Library.Word"
begin

unbundle bit_operations_syntax

section \<open>JNI scalar types\<close>

text \<open>
  \<open>jint\<close> and \<open>int32_t\<close> are 32-bit two's complement integers, \<open>jlong\<close> and the
  representation of \<open>std::chrono::milliseconds\<close> are 64-bit ones. A \<open>jfloat\<close> is
  kept as its IEEE-754 binary32 bit pattern (sign bit 31, exponent bits 30..23, fraction
  bits 22..0), so that NaN, the two zeros and the infinities are all present in the model.
  A \<open>jobject\<close> is an opaque reference.
\<close>

type_synonym jint = "32 word"
type_synonym jlong = "64 word"
type_synonym jfloat = "32 word"
type_synonym jobject = nat

text \<open>
  The only float operations of the source are the comparisons \<open>x == 0\<close> and \<open>x > 0\<close>.
  \<open>x == 0\<close> holds for \<open>+0.0\<close> and \<open>-0.0\<close> (every bit but the sign is clear) and for
  nothing else. \<open>x > 0\<close> holds for the positive non-zero numbers and \<open>+infinity\<close>: the sign
  bit is clear, the value is not zero and it is not a NaN (a NaN has all exponent bits set
  and a non-zero fraction, so its magnitude bits exceed those of infinity, 0x7F800000).
\<close>

definition float_eq_zero :: "jfloat \<Rightarrow> bool" where
  "float_eq_zero x = (x AND 0x7FFFFFFF = 0)"

definition float_gt_zero :: "jfloat \<Rightarrow> bool" where
  "float_gt_zero x = (x \<noteq> 0 \<and> x \<le> 0x7F800000)"


definition float_half :: jfloat where
  "float_half = 0x3F000000"

section \<open>The HAL data types\<close>

text \<open>
  \<open>aidl::Braking\<close> is an enum backed by a 32-bit integer; the source obtains it by
  \<open>static_cast<aidl::Braking>(brakingId)\<close> from a \<open>jint\<close>, so every 32-bit value occurs.
  \<open>NONE\<close> is 0 and \<open>CLAB\<close> is 1.
\<close>

type_synonym Braking = "32 word"

definition Braking_NONE :: Braking where
  "Braking_NONE = 0"

definition Braking_CLAB :: Braking where
  "Braking_CLAB = 1"

text \<open>The Java class \<open>android.os.vibrator.RampSegment\<close>, read through \<open>sRampClassInfo\<close>.\<close>

record RampSegment =
  mStartAmplitude :: jfloat
  mEndAmplitude :: jfloat
  mStartFrequency :: jfloat
  mEndFrequency :: jfloat
  mDuration :: jint

record ActivePwle =
  startAmplitude :: jfloat
  endAmplitude :: jfloat
  startFrequency :: jfloat
  endFrequency :: jfloat
  duration :: "32 word"

text \<open>
  \<open>aidl::BrakingPwle\<close> has the fields \<open>braking\<close> and \<open>duration\<close>; the second is named
  \<open>brakingDuration\<close> here because \<open>duration\<close> is a field of \<open>ActivePwle\<close> already.
\<close>

record BrakingPwle =
  braking :: Braking
  brakingDuration :: "32 word"

text \<open>\<open>aidl::PrimitivePwle\<close> is the tagged union of the two.\<close>

datatype PrimitivePwle = Active ActivePwle | Braking BrakingPwle

section \<open>The envelope compiler\<close>

definition brakingPwle :: "Braking \<Rightarrow> 32 word \<Rightarrow> BrakingPwle" where
  "brakingPwle b d = \<lparr>braking = b, brakingDuration = d\<rparr>"

definition activePwleFromJavaPrimitive :: "RampSegment \<Rightarrow> ActivePwle" where
  "activePwleFromJavaPrimitive ramp =
     \<lparr>startAmplitude = mStartAmplitude ramp,
      endAmplitude = mEndAmplitude ramp,
      startFrequency = mStartFrequency ramp,
      endFrequency = mEndFrequency ramp,
      duration = mDuration ramp\<rparr>"

definition shouldBeReplacedWithBraking :: "ActivePwle \<Rightarrow> Braking \<Rightarrow> bool" where
  "shouldBeReplacedWithBraking activePwle b =
     (b \<noteq> Braking_NONE \<and> float_eq_zero (startAmplitude activePwle) \<and>
      float_eq_zero (endAmplitude activePwle))"

definition shouldAddLastBraking :: "ActivePwle \<Rightarrow> Braking \<Rightarrow> bool" where
  "shouldAddLastBraking lastActivePwle b =
     (b \<noteq> Braking_NONE \<and> float_gt_zero (startAmplitude lastActivePwle) \<and>
      float_eq_zero (endAmplitude lastActivePwle))"

text \<open>
  The loop of \<open>vibratorPerformPwleEffect\<close>: \<open>i\<close> is the loop index, \<open>n\<close> the array length
  \<open>size\<close>, the list holds the elements \<open>waveform[i..]\<close> still to be read, and the pair is
  the state \<open>(primitives, totalDuration)\<close>. \<open>push_back\<close> appends at the end. The body
  runs only with \<open>i < size\<close>, so \<open>size - 1\<close> does not wrap there. The duration, an
  \<open>int32_t\<close>, is sign-extended to the 64-bit representation of \<open>std::chrono::milliseconds\<close>
  and added with the wrap-around of 64-bit addition.
\<close>

fun pwle_loop ::
  "nat \<Rightarrow> nat \<Rightarrow> RampSegment list \<Rightarrow> Braking \<Rightarrow> PrimitivePwle list \<times> jlong
     \<Rightarrow> PrimitivePwle list \<times> jlong" where
  "pwle_loop i n [] b st = st"
| "pwle_loop i n (element # rest) b (primitives, totalDuration) =
     (let activePwle = activePwleFromJavaPrimitive element;
          primitives1 =
            (if i > 0 \<and> shouldBeReplacedWithBraking activePwle b
             then primitives @ [Braking (brakingPwle b (duration activePwle))]
             else primitives @ [Active activePwle]);
          totalDuration1 = totalDuration + scast (duration activePwle);
          primitives2 =
            (if i = n - 1 \<and> shouldAddLastBraking activePwle b
             then primitives1 @ [Braking (brakingPwle b 0)]
             else primitives1)
      in pwle_loop (Suc i) n rest b (primitives2, totalDuration1))"

text \<open>
  Lines 302 to 319 of \<open>vibratorPerformPwleEffect\<close>: the primitives handed to the HAL and
  the total duration, from the Java array and the braking id.
\<close>

definition pwleCompile :: "RampSegment list \<Rightarrow> jint \<Rightarrow> PrimitivePwle list \<times> jlong" where
  "pwleCompile waveform brakingId =
     pwle_loop 0 (length waveform) waveform brakingId ([], 0)"

section \<open>The HAL controller, as far as this file uses it\<close>

text \<open>
  \<open>vibrator::HalResult<T>\<close> of the vibrator service library: a call is answered with a
  value, with a failure and its message, or with "unsupported". \<open>HalResult<void>\<close> is
  \<open>unit HalResult\<close>.
\<close>

datatype 'a HalResult = Ok 'a | Failed string | Unsupported

fun isOk :: "'a HalResult \<Rightarrow> bool" where
  "isOk (Ok v) = True"
| "isOk (Failed msg) = False"
| "isOk Unsupported = False"

fun isUnsupported :: "'a HalResult \<Rightarrow> bool" where
  "isUnsupported (Ok v) = False"
| "isUnsupported (Failed msg) = False"
| "isUnsupported Unsupported = True"



record Info =
  capabilities :: "32 word HalResult"
  supportedEffects :: "32 word list HalResult"
  supportedBraking :: "Braking list HalResult"
  supportedPrimitives :: "32 word list HalResult"
  minFrequency :: "jfloat HalResult"
  resonantFrequency :: "jfloat HalResult"
  frequencyResolution :: "jfloat HalResult"
  qFactor :: "jfloat HalResult"
  maxAmplitudes :: "jfloat list HalResult"

text \<open>
  The closure returned by \<open>createCallback\<close> captures \<open>vibrationId\<close> by value and the
  raw pointer \<open>this\<close>: it is the pair of the two.
\<close>

record Callback =
  cb_this :: jlong
  cb_vibrationId :: jlong

text \<open>
  The HAL controller is outside this file. It is a parameter of the model: \<open>getInfo\<close> is
  what \<open>mHal->getInfo()\<close> returns, and \<open>doWithRetry_on\<close> and
  \<open>doWithRetry_performPwleEffect\<close> are what \<open>mHal->doWithRetry\<close> answers when the function
  it is given calls \<open>hal->on(timeout, callback)\<close> and
  \<open>hal->performPwleEffect(primitives, callback)\<close>. Any answer is possible.
\<close>

record HalController =
  getInfo :: Info
  doWithRetry_on :: "jlong \<Rightarrow> Callback \<Rightarrow> unit HalResult"
  doWithRetry_performPwleEffect :: "PrimitivePwle list \<Rightarrow> Callback \<Rightarrow> unit HalResult"

section \<open>The native wrapper and its lifetime\<close>

record VibratorControllerWrapper =
  mHal :: HalController
  mVibratorId :: "32 word"
  mCallbackListener :: jobject

text \<open>
  The native state: the wrappers allocated on the C++ heap, by address (the \<open>jlong\<close> the
  Java side keeps), and the JNI global references that have been created and not deleted.
  Address 0 is \<open>nullptr\<close>.
\<close>

record native_state =
  wrappers :: "jlong \<Rightarrow> VibratorControllerWrapper option"
  globalRefs :: "jobject set"

text \<open>
  A native function either returns or dereferences a pointer to no live wrapper, which is
  undefined behaviour in C++.
\<close>

datatype 'a outcome = Return 'a | Undefined

text \<open>
  The body of \<open>~VibratorControllerWrapper\<close>, run on the live wrapper \<open>w\<close>: it deletes the
  global reference to the listener.
\<close>

definition destructor :: "VibratorControllerWrapper \<Rightarrow> native_state \<Rightarrow> native_state" where
  "destructor w s = s\<lparr>globalRefs := globalRefs s - {mCallbackListener w}\<rparr>"

text \<open>\<open>delete wrapper\<close> runs the destructor and then frees the memory.\<close>

definition destroyNativeWrapper :: "jlong \<Rightarrow> native_state \<Rightarrow> native_state outcome" where
  "destroyNativeWrapper ptr s =
     (if ptr \<noteq> 0
      then (case wrappers s ptr of
              None \<Rightarrow> Undefined
            | Some wrapper \<Rightarrow>
                (let s1 = destructor wrapper s
                 in Return (s1\<lparr>wrappers := (wrappers s1)(ptr := None)\<rparr>)))
      else Return s)"

definition createCallback :: "jlong \<Rightarrow> jlong \<Rightarrow> Callback" where
  "createCallback this vibrationId = \<lparr>cb_this = this, cb_vibrationId = vibrationId\<rparr>"

text \<open>
  Running the closure in a state \<open>s\<close>. It reads \<open>mCallbackListener\<close> and \<open>mVibratorId\<close>
  through the captured \<open>this\<close>, with no check that the wrapper is still there, and calls
  \<open>onComplete(mVibratorId, vibrationId)\<close> on the listener, with no check that the reference
  is still valid. Reading through a pointer to a freed wrapper is \<open>UseAfterFree\<close>, calling
  through a deleted global reference is \<open>DeletedReference\<close>; both are undefined behaviour.
\<close>

datatype CallbackResult =
  OnComplete jobject jint jlong
  | DeletedReference
  | UseAfterFree

definition invokeCallback :: "Callback \<Rightarrow> native_state \<Rightarrow> CallbackResult" where
  "invokeCallback cb s =
     (case wrappers s (cb_this cb) of
        None \<Rightarrow> UseAfterFree
      | Some this \<Rightarrow>
          if mCallbackListener this \<in> globalRefs s
          then OnComplete (mCallbackListener this) (mVibratorId this) (cb_vibrationId cb)
          else DeletedReference)"

section \<open>The native methods\<close>

definition vibratorOn :: "native_state \<Rightarrow> jlong \<Rightarrow> jlong \<Rightarrow> jlong \<Rightarrow> jlong outcome" where
  "vibratorOn s ptr timeoutMs vibrationId =
     (if ptr = 0 then Return (- 1)
      else case wrappers s ptr of
             None \<Rightarrow> Undefined
           | Some wrapper \<Rightarrow>
               (let callback = createCallback ptr vibrationId;
                    result = doWithRetry_on (mHal wrapper) timeoutMs callback
                in Return (if isOk result then timeoutMs
                           else if isUnsupported result then 0 else - 1)))"

definition vibratorPerformPwleEffect ::
  "native_state \<Rightarrow> jlong \<Rightarrow> RampSegment list \<Rightarrow> jint \<Rightarrow> jlong \<Rightarrow> jlong outcome" where
  "vibratorPerformPwleEffect s ptr waveform brakingId vibrationId =
     (if ptr = 0 then Return (- 1)
      else case wrappers s ptr of
             None \<Rightarrow> Undefined
           | Some wrapper \<Rightarrow>
               (let (primitives, totalDuration) = pwleCompile waveform brakingId;
                    callback = createCallback ptr vibrationId;
                    result = doWithRetry_performPwleEffect (mHal wrapper) primitives callback
                in Return (if isOk result then totalDuration
                           else if isUnsupported result then 0 else - 1)))"







section \<open>A closed form of the loop\<close>

text \<open>
  What iteration \<open>i\<close> pushes for its element, and what the last iteration pushes after
  it. They are used to state the result of the loop without the loop.
\<close>

definition emitted :: "nat \<Rightarrow> Braking \<Rightarrow> RampSegment \<Rightarrow> PrimitivePwle" where
  "emitted i b element =
     (if i > 0 \<and> shouldBeReplacedWithBraking (activePwleFromJavaPrimitive element) b
      then Braking (brakingPwle b (mDuration element))
      else Active (activePwleFromJavaPrimitive element))"

definition lastBraking :: "RampSegment list \<Rightarrow> Braking \<Rightarrow> PrimitivePwle list" where
  "lastBraking waveform b =
     (if waveform \<noteq> [] \<and> shouldAddLastBraking (activePwleFromJavaPrimitive (last waveform)) b
      then [Braking (brakingPwle b 0)] else [])"

section \<open>Example inputs\<close>

text \<open>
  \<open>scenarioA\<close> is the envelope of the end-to-end scenario A, with all frequencies 0. The
  second ramp of \<open>threeRamps\<close> goes from \<open>+0.0\<close> to \<open>-0.0\<close>. \<open>frequencyRamps\<close> has
  the amplitudes and durations of scenario A and sweeps the frequency from 150.0
  (0x43160000) to 200.0 (0x43480000) and back.
\<close>

definition ramp :: "jfloat \<Rightarrow> jfloat \<Rightarrow> jfloat \<Rightarrow> jfloat \<Rightarrow> jint \<Rightarrow> RampSegment" where
  "ramp a0 a1 f0 f1 d =
     \<lparr>mStartAmplitude = a0, mEndAmplitude = a1, mStartFrequency = f0, mEndFrequency = f1,
      mDuration = d\<rparr>"

definition scenarioA :: "RampSegment list" where
  "scenarioA = [ramp 0 0 0 0 10, ramp float_half 0 0 0 20]"

definition frequencyRamps :: "RampSegment list" where
  "frequencyRamps = [ramp 0 0 0x43160000 0x43480000 10, ramp float_half 0 0x43480000 0x43160000 20]"

definition threeRamps :: "RampSegment list" where
  "threeRamps =
     [ramp float_half float_half 0 0 5, ramp 0 0x80000000 0 0 10,
      ramp float_half float_half 0 0 15]"

text \<open>
  A state with one wrapper, at address 4096, for actuator 7, with the listener reference 1,
  on a HAL that reports \<open>info\<close> and gives \<open>answer\<close> to every call; the state with
  nothing allocated; an \<open>Info\<close> in which the hardware reported nothing, and one in
  which it reported only its capabilities, as the empty bit mask.
\<close>

definition exampleHal :: "Info \<Rightarrow> unit HalResult \<Rightarrow> HalController" where
  "exampleHal info answer =
     \<lparr>getInfo = info,
      doWithRetry_on = (\<lambda>timeout callback. answer),
      doWithRetry_performPwleEffect = (\<lambda>primitives callback. answer)\<rparr>"

definition infoAbsent :: Info where
  "infoAbsent =
     \<lparr>capabilities = Unsupported, supportedEffects = Unsupported,
      supportedBraking = Unsupported, supportedPrimitives = Unsupported,
      minFrequency = Unsupported, resonantFrequency = Unsupported,
      frequencyResolution = Unsupported, qFactor = Unsupported,
      maxAmplitudes = Unsupported\<rparr>"


definition freedState :: native_state where
  "freedState = \<lparr>wrappers = Map.empty, globalRefs = {}\<rparr>"

definition exampleWrapper :: "HalController \<Rightarrow> VibratorControllerWrapper" where
  "exampleWrapper hal = \<lparr>mHal = hal, mVibratorId = 7, mCallbackListener = 1\<rparr>"

definition exampleState :: "HalController \<Rightarrow> native_state" where
  "exampleState hal =
     \<lparr>wrappers = (\<lambda>p. if p = 4096 then Some (exampleWrapper hal) else None),
      globalRefs = {1}\<rparr>"

section \<open>The result of the loop\<close>

lemma pwle_loop_primitives:
  "n = i + length segs \<Longrightarrow>
   fst (pwle_loop i n segs b (ps, t)) =
     ps @ map (\<lambda>(k, e). emitted k b e) (zip [i..<n] segs) @ lastBraking segs b"
proof (induction segs arbitrary: i ps t)
  case Nil
  then show ?case by (simp add: lastBraking_def)
next
  case (Cons e rest)
  have n: "n = Suc i + length rest" using Cons.prems by simp
  have "i < n" using n by simp
  then have up: "[i..<n] = i # [Suc i..<n]" by (rule upt_conv_Cons)
  have "n - 1 = i + length rest" using n by simp
  then have last_iff: "(i = n - 1) = (rest = [])" by simp
  show ?case
  proof (cases "rest = []")
    case True
    then show ?thesis using n up
      by (simp add: Let_def emitted_def lastBraking_def activePwleFromJavaPrimitive_def)
  next
    case False
    then have "i \<noteq> n - 1" using last_iff by simp
    then show ?thesis using False up Cons.IH [OF n]
      by (simp add: Let_def emitted_def lastBraking_def activePwleFromJavaPrimitive_def)
  qed
qed

lemma pwle_loop_total:
  "snd (pwle_loop i n segs b (ps, t)) = t + sum_list (map (\<lambda>e. scast (mDuration e)) segs)"
  by (induction segs arbitrary: i ps t)
     (simp_all add: Let_def activePwleFromJavaPrimitive_def add.assoc)

lemma pwleCompile_primitives:
  "fst (pwleCompile waveform b) =
     map (\<lambda>(k, e). emitted k b e) (zip [0..<length waveform] waveform) @ lastBraking waveform b"
  by (simp add: pwleCompile_def pwle_loop_primitives)

lemma pwleCompile_total:
  "snd (pwleCompile waveform b) = sum_list (map (\<lambda>e. scast (mDuration e)) waveform)"
  by (simp add: pwleCompile_def pwle_loop_total)

lemma length_pwleCompile:
  "length (fst (pwleCompile waveform b)) = length waveform + length (lastBraking waveform b)"
  by (simp add: pwleCompile_primitives)

lemma nth_pwleCompile:
  assumes "i < length waveform"
  shows "fst (pwleCompile waveform b) ! i = emitted i b (waveform ! i)"
proof -
  let ?body = "map (\<lambda>(k, e). emitted k b e) (zip [0..<length waveform] waveform)"
  have "i < length ?body" using assms by simp
  then have "fst (pwleCompile waveform b) ! i = ?body ! i"
    by (simp add: pwleCompile_primitives nth_append)
  also have "\<dots> = emitted i b (waveform ! i)" using assms by simp
  finally show ?thesis .
qed

lemma sum_list_scast_durations:
  "(sum_list (map (\<lambda>e. scast (mDuration e)) waveform) :: 64 word) =
     word_of_int (sum_list (map (\<lambda>e. sint (mDuration e)) waveform))"
  by (induction waveform) simp_all

lemma sum_list_sint_bound:
  "\<bar>sum_list (map (\<lambda>e. sint (mDuration e)) waveform)\<bar> \<le> int (length waveform) * 2 ^ 31"
proof (induction waveform)
  case Nil
  then show ?case by simp
next
  case (Cons e es)
  have "- (2 ^ 31) \<le> sint (mDuration e)" "sint (mDuration e) < 2 ^ 31"
    using sint_ge [of "mDuration e"] sint_lt [of "mDuration e"] by simp_all
  then show ?case using Cons by (simp add: algebra_simps)
qed



section \<open>The envelope compiler: scenario A\<close>

text \<open>
  Scenario A is said to compile to a braking segment of duration 10, the second ramp and a
  closing braking segment. The first ramp is at index 0, where the loop never substitutes
  (\<open>i > 0\<close> is required), so it is passed on as it is: the output said to be produced
  is not the one the loop produces.
\<close>

theorem scenarioA_claimed_output_refuted:
  "pwleCompile scenarioA Braking_CLAB =
     ([Active \<lparr>startAmplitude = 0, endAmplitude = 0, startFrequency = 0, endFrequency = 0,
                duration = 10\<rparr>,
       Active \<lparr>startAmplitude = float_half, endAmplitude = 0, startFrequency = 0,
                endFrequency = 0, duration = 20\<rparr>,
       Braking \<lparr>braking = Braking_CLAB, brakingDuration = 0\<rparr>], 30) \<and>
   pwleCompile scenarioA Braking_CLAB \<noteq>
     ([Braking \<lparr>braking = Braking_CLAB, brakingDuration = 10\<rparr>,
       Active \<lparr>startAmplitude = float_half, endAmplitude = 0, startFrequency = 0,
                endFrequency = 0, duration = 20\<rparr>,
       Braking \<lparr>braking = Braking_CLAB, brakingDuration = 0\<rparr>], 30)"
  by (simp add: pwleCompile_def scenarioA_def ramp_def Let_def activePwleFromJavaPrimitive_def
      shouldBeReplacedWithBraking_def shouldAddLastBraking_def brakingPwle_def
      float_eq_zero_def float_gt_zero_def float_half_def Braking_CLAB_def Braking_NONE_def)

text \<open>
  C1, as the code has it: for every braking kind other than \<open>NONE\<close> and whatever the
  frequencies, the envelope \<open>[{0, 0, _, _, 10}, {0.5, 0, _, _, 20}]\<close> compiles to the two
  ramps unchanged followed by one braking segment of that kind and duration 0, and the
  total duration is 30.
\<close>

theorem scenarioA_output:
  "b \<noteq> Braking_NONE \<Longrightarrow>
   pwleCompile [ramp 0 0 f0 f1 10, ramp float_half 0 f2 f3 20] b =
     ([Active \<lparr>startAmplitude = 0, endAmplitude = 0, startFrequency = f0, endFrequency = f1,
                duration = 10\<rparr>,
       Active \<lparr>startAmplitude = float_half, endAmplitude = 0, startFrequency = f2,
                endFrequency = f3, duration = 20\<rparr>,
       Braking \<lparr>braking = b, brakingDuration = 0\<rparr>], 30)"
  by (simp add: pwleCompile_def ramp_def Let_def activePwleFromJavaPrimitive_def
      shouldBeReplacedWithBraking_def shouldAddLastBraking_def brakingPwle_def
      float_eq_zero_def float_gt_zero_def float_half_def)

theorem scenarioA_output_witness:
  "Braking_CLAB \<noteq> Braking_NONE \<and>
   fst (pwleCompile [ramp 0 0 0 0 10, ramp float_half 0 0 0 20] Braking_CLAB) ! 0 =
     Active \<lparr>startAmplitude = 0, endAmplitude = 0, startFrequency = 0, endFrequency = 0,
              duration = 10\<rparr>"
proof -
  have h: "Braking_CLAB \<noteq> Braking_NONE" by (simp add: Braking_CLAB_def Braking_NONE_def)
  show ?thesis using h scenarioA_output [OF h, of 0 0 0 0] by simp
qed

section \<open>The envelope compiler: general properties\<close>

text \<open>
  C3: the total duration is the sum of the durations of the input segments, whatever the
  braking kind and whatever was substituted, and it is 0 (with no output) for the empty
  input. Durations are signed 32-bit values and the total is a signed 64-bit one; a Java
  array has fewer than \<open>2 ^ 31\<close> elements, and then the 64-bit sum cannot wrap.
\<close>

theorem total_duration_is_sum:
  "(length waveform < 2 ^ 31 \<longrightarrow>
      sint (snd (pwleCompile waveform b)) = (\<Sum>e\<leftarrow>waveform. sint (mDuration e))) \<and>
   pwleCompile [] b = ([], 0)"
proof (intro conjI impI)
  assume len: "length waveform < 2 ^ 31"
  let ?S = "\<Sum>e\<leftarrow>waveform. sint (mDuration e)"
  have "int (length waveform) < 2 ^ 31" using len by (simp add: of_nat_less_numeral_power_cancel_iff)
  then have "int (length waveform) * 2 ^ 31 < 2 ^ 31 * 2 ^ 31" by simp
  then have "\<bar>?S\<bar> < 2 ^ 62" using sum_list_sint_bound [of waveform] by simp
  then have range: "- (2 ^ 63) \<le> ?S" "?S < 2 ^ 63" by simp_all
  have "sint (word_of_int ?S :: 64 word) = ?S"
    using range by (simp add: signed_of_int signed_take_bit_int_eq_self)
  then show "sint (snd (pwleCompile waveform b)) = ?S"
    by (simp add: pwleCompile_total sum_list_scast_durations)
next
  show "pwleCompile [] b = ([], 0)" by (simp add: pwleCompile_def)
qed

theorem total_duration_is_sum_witness:
  "length scenarioA < 2 ^ 31 \<and>
   sint (snd (pwleCompile scenarioA Braking_CLAB)) = 30 \<and>
   (\<Sum>e\<leftarrow>scenarioA. sint (mDuration e)) = 30"
  using total_duration_is_sum [of scenarioA Braking_CLAB]
  by (simp add: scenarioA_def ramp_def)

text \<open>
  C4: at an index \<open>i > 0\<close> whose segment starts and ends with amplitude zero, and with a
  braking kind other than \<open>NONE\<close>, position \<open>i\<close> of the output is a braking segment of
  that kind and of the duration of the segment, whatever the other segments are.
\<close>

theorem zero_segment_becomes_braking:
  assumes "0 < i" and "i < length waveform" and "b \<noteq> Braking_NONE"
    and "float_eq_zero (mStartAmplitude (waveform ! i))"
    and "float_eq_zero (mEndAmplitude (waveform ! i))"
  shows "i < length (fst (pwleCompile waveform b)) \<and>
         fst (pwleCompile waveform b) ! i =
           Braking \<lparr>braking = b, brakingDuration = mDuration (waveform ! i)\<rparr>"
proof
  show "i < length (fst (pwleCompile waveform b))"
    using assms(2) by (simp add: length_pwleCompile)
next
  have "emitted i b (waveform ! i) =
          Braking \<lparr>braking = b, brakingDuration = mDuration (waveform ! i)\<rparr>"
    using assms(1,3,4,5)
    by (simp add: emitted_def shouldBeReplacedWithBraking_def activePwleFromJavaPrimitive_def
        brakingPwle_def)
  then show "fst (pwleCompile waveform b) ! i =
               Braking \<lparr>braking = b, brakingDuration = mDuration (waveform ! i)\<rparr>"
    using nth_pwleCompile [OF assms(2)] by simp
qed

theorem zero_segment_becomes_braking_witness:
  "0 < (1::nat) \<and> 1 < length threeRamps \<and> Braking_CLAB \<noteq> Braking_NONE \<and>
   float_eq_zero (mStartAmplitude (threeRamps ! 1)) \<and>
   float_eq_zero (mEndAmplitude (threeRamps ! 1)) \<and>
   fst (pwleCompile threeRamps Braking_CLAB) ! 1 =
     Braking \<lparr>braking = Braking_CLAB, brakingDuration = 10\<rparr>"
proof -
  have h1: "0 < (1::nat)" by simp
  have h2: "1 < length threeRamps" by (simp add: threeRamps_def)
  have h3: "Braking_CLAB \<noteq> Braking_NONE" by (simp add: Braking_CLAB_def Braking_NONE_def)
  have h4: "float_eq_zero (mStartAmplitude (threeRamps ! 1))"
    by (simp add: threeRamps_def ramp_def float_eq_zero_def)
  have h5: "float_eq_zero (mEndAmplitude (threeRamps ! 1))"
    by (simp add: threeRamps_def ramp_def float_eq_zero_def)
  have "mDuration (threeRamps ! 1) = 10" by (simp add: threeRamps_def ramp_def)
  then show ?thesis
    using h1 h2 h3 h4 h5 zero_segment_becomes_braking [OF h1 h2 h3 h4 h5] by simp
qed

text \<open>
  C5: when the last segment of a non-empty input starts with an amplitude above zero and
  ends with amplitude zero, and the braking kind is not \<open>NONE\<close>, the output has one
  element more than the input: a braking segment of duration 0 in last position, after
  the elements pushed for the input segments.
\<close>

theorem last_braking_appended:
  assumes "waveform \<noteq> []" and "b \<noteq> Braking_NONE"
    and "float_gt_zero (mStartAmplitude (last waveform))"
    and "float_eq_zero (mEndAmplitude (last waveform))"
  shows "length (fst (pwleCompile waveform b)) = length waveform + 1 \<and>
         last (fst (pwleCompile waveform b)) = Braking \<lparr>braking = b, brakingDuration = 0\<rparr> \<and>
         butlast (fst (pwleCompile waveform b)) =
           map (\<lambda>(k, e). emitted k b e) (zip [0..<length waveform] waveform)"
proof -
  have "lastBraking waveform b = [Braking \<lparr>braking = b, brakingDuration = 0\<rparr>]"
    using assms
    by (simp add: lastBraking_def shouldAddLastBraking_def activePwleFromJavaPrimitive_def
        brakingPwle_def)
  then show ?thesis by (simp add: pwleCompile_primitives butlast_append)
qed

theorem last_braking_appended_witness:
  "scenarioA \<noteq> [] \<and> Braking_CLAB \<noteq> Braking_NONE \<and>
   float_gt_zero (mStartAmplitude (last scenarioA)) \<and>
   float_eq_zero (mEndAmplitude (last scenarioA)) \<and>
   length (fst (pwleCompile scenarioA Braking_CLAB)) = 3 \<and>
   last (fst (pwleCompile scenarioA Braking_CLAB)) =
     Braking \<lparr>braking = Braking_CLAB, brakingDuration = 0\<rparr>"
proof -
  have h1: "scenarioA \<noteq> []" by (simp add: scenarioA_def)
  have h2: "Braking_CLAB \<noteq> Braking_NONE" by (simp add: Braking_CLAB_def Braking_NONE_def)
  have h3: "float_gt_zero (mStartAmplitude (last scenarioA))"
    by (simp add: scenarioA_def ramp_def float_gt_zero_def float_half_def)
  have h4: "float_eq_zero (mEndAmplitude (last scenarioA))"
    by (simp add: scenarioA_def ramp_def float_eq_zero_def)
  have "length scenarioA = 2" by (simp add: scenarioA_def)
  then show ?thesis
    using h1 h2 h3 h4 last_braking_appended [OF h1 h2 h3 h4] by simp
qed

text \<open>
  C6: with braking kind \<open>NONE\<close> a non-empty input is passed through: every segment
  becomes the active primitive with the same two amplitudes, the same two frequencies and
  the same duration, the length is kept and no braking segment occurs.
\<close>

theorem braking_none_is_identity:
  assumes "waveform \<noteq> []"
  shows "fst (pwleCompile waveform Braking_NONE) =
           map (\<lambda>e. Active \<lparr>startAmplitude = mStartAmplitude e,
                              endAmplitude = mEndAmplitude e,
                              startFrequency = mStartFrequency e,
                              endFrequency = mEndFrequency e,
                              duration = mDuration e\<rparr>) waveform \<and>
         length (fst (pwleCompile waveform Braking_NONE)) = length waveform \<and>
         (\<forall>p \<in> set (fst (pwleCompile waveform Braking_NONE)). \<forall>bp. p \<noteq> Braking bp)"
proof -
  let ?active = "\<lambda>e. Active \<lparr>startAmplitude = mStartAmplitude e,
                              endAmplitude = mEndAmplitude e,
                              startFrequency = mStartFrequency e,
                              endFrequency = mEndFrequency e,
                              duration = mDuration e\<rparr>"
  have emitted: "emitted k Braking_NONE e = ?active e" for k e
    by (simp add: emitted_def shouldBeReplacedWithBraking_def activePwleFromJavaPrimitive_def)
  have "map (\<lambda>(k, e). emitted k Braking_NONE e) (zip [0..<length waveform] waveform) =
          map ?active (map snd (zip [0..<length waveform] waveform))"
    unfolding map_map by (simp add: emitted case_prod_unfold comp_def)
  also have "\<dots> = map ?active waveform"
    by simp
  finally have body:
    "map (\<lambda>(k, e). emitted k Braking_NONE e) (zip [0..<length waveform] waveform) =
       map ?active waveform" .
  have "lastBraking waveform Braking_NONE = []"
    by (simp add: lastBraking_def shouldAddLastBraking_def)
  then have eq: "fst (pwleCompile waveform Braking_NONE) = map ?active waveform"
    using body by (simp add: pwleCompile_primitives)
  show ?thesis unfolding eq by auto
qed

theorem braking_none_is_identity_witness:
  "frequencyRamps \<noteq> [] \<and>
   fst (pwleCompile frequencyRamps Braking_NONE) =
     [Active \<lparr>startAmplitude = 0, endAmplitude = 0, startFrequency = 0x43160000,
               endFrequency = 0x43480000, duration = 10\<rparr>,
      Active \<lparr>startAmplitude = float_half, endAmplitude = 0, startFrequency = 0x43480000,
               endFrequency = 0x43160000, duration = 20\<rparr>]"
proof -
  have h: "frequencyRamps \<noteq> []" by (simp add: frequencyRamps_def)
  show ?thesis
    using h braking_none_is_identity [OF h]
    by (simp add: frequencyRamps_def ramp_def)
qed

section \<open>The native methods with a duration\<close>

text \<open>
  C7: \<open>performPwleEffect\<close> on a live wrapper hands the compiled primitives and the
  callback to the HAL, whose answer carries no value (\<open>HalResult<void>\<close>). When the
  answer is Ok the method returns the total duration computed by the loop, when it is
  Unsupported it returns 0, and when it is Failed it returns -1.
\<close>

theorem vibratorPerformPwleEffect_result:
  assumes "ptr \<noteq> 0" and "wrappers s ptr = Some wrapper"
    and "answer = doWithRetry_performPwleEffect (mHal wrapper)
                    (fst (pwleCompile waveform brakingId)) (createCallback ptr vibrationId)"
  shows "(answer = Ok () \<longrightarrow>
            vibratorPerformPwleEffect s ptr waveform brakingId vibrationId =
              Return (snd (pwleCompile waveform brakingId))) \<and>
         (answer = Unsupported \<longrightarrow>
            vibratorPerformPwleEffect s ptr waveform brakingId vibrationId = Return 0) \<and>
         (\<forall>msg. answer = Failed msg \<longrightarrow>
            vibratorPerformPwleEffect s ptr waveform brakingId vibrationId = Return (- 1))"
  using assms by (simp add: vibratorPerformPwleEffect_def Let_def case_prod_unfold)

theorem vibratorPerformPwleEffect_result_witness:
  "vibratorPerformPwleEffect (exampleState (exampleHal infoAbsent (Ok ()))) 4096
     scenarioA Braking_CLAB 9 = Return 30 \<and>
   vibratorPerformPwleEffect (exampleState (exampleHal infoAbsent Unsupported)) 4096
     scenarioA Braking_CLAB 9 = Return 0 \<and>
   vibratorPerformPwleEffect (exampleState (exampleHal infoAbsent (Failed ''dead''))) 4096
     scenarioA Braking_CLAB 9 = Return (- 1)"
proof -
  have p: "(4096 :: jlong) \<noteq> 0" by simp
  have w: "wrappers (exampleState (exampleHal infoAbsent r)) 4096 =
             Some (exampleWrapper (exampleHal infoAbsent r))" for r
    by (simp add: exampleState_def)
  have d: "r = doWithRetry_performPwleEffect (mHal (exampleWrapper (exampleHal infoAbsent r)))
                 (fst (pwleCompile scenarioA Braking_CLAB)) (createCallback 4096 9)" for r
    by (simp add: exampleWrapper_def exampleHal_def)
  have t: "snd (pwleCompile scenarioA Braking_CLAB) = 30"
    by (simp add: pwleCompile_total scenarioA_def ramp_def)
  show ?thesis
    using vibratorPerformPwleEffect_result [OF p w d, of "Ok ()"]
      vibratorPerformPwleEffect_result [OF p w d, of Unsupported]
      vibratorPerformPwleEffect_result [OF p w d, of "Failed ''dead''"]
    by (simp add: t)
qed

text \<open>
  C8: \<open>on\<close> on a live wrapper returns the timeout it was given when the HAL answers Ok,
  0 when it answers Unsupported and -1 when it answers Failed.
\<close>

theorem vibratorOn_result:
  assumes "ptr \<noteq> 0" and "wrappers s ptr = Some wrapper"
  shows "(doWithRetry_on (mHal wrapper) timeoutMs (createCallback ptr vibrationId) = Ok () \<longrightarrow>
            vibratorOn s ptr timeoutMs vibrationId = Return timeoutMs) \<and>
         (doWithRetry_on (mHal wrapper) timeoutMs (createCallback ptr vibrationId) = Unsupported \<longrightarrow>
            vibratorOn s ptr timeoutMs vibrationId = Return 0) \<and>
         (\<forall>msg. doWithRetry_on (mHal wrapper) timeoutMs (createCallback ptr vibrationId) = Failed msg \<longrightarrow>
            vibratorOn s ptr timeoutMs vibrationId = Return (- 1))"
  using assms by (simp add: vibratorOn_def Let_def)

theorem vibratorOn_result_witness:
  "vibratorOn (exampleState (exampleHal infoAbsent (Ok ()))) 4096 250 9 = Return 250 \<and>
   vibratorOn (exampleState (exampleHal infoAbsent Unsupported)) 4096 250 9 = Return 0 \<and>
   vibratorOn (exampleState (exampleHal infoAbsent (Failed ''dead''))) 4096 250 9 = Return (- 1)"
proof -
  have p: "(4096 :: jlong) \<noteq> 0" by simp
  have w: "wrappers (exampleState (exampleHal infoAbsent r)) 4096 =
             Some (exampleWrapper (exampleHal infoAbsent r))" for r
    by (simp add: exampleState_def)
  have d: "doWithRetry_on (mHal (exampleWrapper (exampleHal infoAbsent r))) t c = r" for r t c
    by (simp add: exampleWrapper_def exampleHal_def)
  show ?thesis
    using vibratorOn_result [OF p w [of "Ok ()"], of 250 9]
      vibratorOn_result [OF p w [of Unsupported], of 250 9]
      vibratorOn_result [OF p w [of "Failed ''dead''"], of 250 9]
    by (simp add: d)
qed

section \<open>The completion callback\<close>

text \<open>
  C9: the callback created for a request on a live wrapper, run while the wrapper and its
  listener reference are live, calls \<open>onComplete\<close> on the listener of the wrapper with
  the actuator id of the wrapper and the request id it was created with. The fields of a
  wrapper are \<open>const\<close>: as long as the wrapper is live they are those it had when the
  callback was created.
\<close>

theorem callback_delivers_pair:
  assumes "wrappers s ptr = Some wrapper" and "mCallbackListener wrapper \<in> globalRefs s"
  shows "invokeCallback (createCallback ptr vibrationId) s =
           OnComplete (mCallbackListener wrapper) (mVibratorId wrapper) vibrationId"
  using assms by (simp add: invokeCallback_def createCallback_def)

theorem callback_delivers_pair_witness:
  "invokeCallback (createCallback 4096 9) (exampleState (exampleHal infoAbsent (Ok ()))) =
     OnComplete 1 7 9"
proof -
  have w: "wrappers (exampleState (exampleHal infoAbsent (Ok ()))) 4096 =
             Some (exampleWrapper (exampleHal infoAbsent (Ok ())))"
    by (simp add: exampleState_def)
  have g: "mCallbackListener (exampleWrapper (exampleHal infoAbsent (Ok ()))) \<in>
             globalRefs (exampleState (exampleHal infoAbsent (Ok ())))"
    by (simp add: exampleState_def exampleWrapper_def)
  show ?thesis using callback_delivers_pair [OF w g, of 9] by (simp add: exampleWrapper_def)
qed

text \<open>
  The callback is said to notice that its wrapper is being torn down and to drop the
  notification. It holds the raw pointer and checks nothing: after
  \<open>destroyNativeWrapper\<close> it reads the freed wrapper.
\<close>

theorem callback_after_teardown_refuted:
  "destroyNativeWrapper 4096 (exampleState (exampleHal infoAbsent (Ok ()))) = Return freedState \<and>
   invokeCallback (createCallback 4096 9) freedState = UseAfterFree"
  by (auto simp add: destroyNativeWrapper_def destructor_def exampleState_def exampleWrapper_def
      invokeCallback_def createCallback_def Let_def fun_eq_iff freedState_def)

text \<open>
  C10, as the code has it: the callback is safe only while its wrapper is live. Run after
  the destructor of the wrapper has deleted the listener reference, it calls through the
  deleted reference; run after the wrapper has been destroyed and freed, it reads freed
  memory. In neither case is the notification dropped.
\<close>

theorem callback_after_teardown:
  assumes "ptr \<noteq> 0" and "wrappers s ptr = Some wrapper"
  shows "invokeCallback (createCallback ptr vibrationId) (destructor wrapper s) =
           DeletedReference \<and>
         (\<exists>s'. destroyNativeWrapper ptr s = Return s' \<and>
               invokeCallback (createCallback ptr vibrationId) s' = UseAfterFree)"
  using assms
  by (simp add: invokeCallback_def createCallback_def destructor_def destroyNativeWrapper_def
      Let_def)

theorem callback_after_teardown_witness:
  "(4096 :: jlong) \<noteq> 0 \<and>
   wrappers (exampleState (exampleHal infoAbsent (Ok ()))) 4096 =
     Some (exampleWrapper (exampleHal infoAbsent (Ok ()))) \<and>
   invokeCallback (createCallback 4096 9)
     (destructor (exampleWrapper (exampleHal infoAbsent (Ok ())))
        (exampleState (exampleHal infoAbsent (Ok ())))) = DeletedReference \<and>
   (\<exists>s'. destroyNativeWrapper 4096 (exampleState (exampleHal infoAbsent (Ok ()))) = Return s' \<and>
         invokeCallback (createCallback 4096 9) s' = UseAfterFree)"
proof -
  have p: "(4096 :: jlong) \<noteq> 0" by simp
  have w: "wrappers (exampleState (exampleHal infoAbsent (Ok ()))) 4096 =
             Some (exampleWrapper (exampleHal infoAbsent (Ok ())))"
    by (simp add: exampleState_def)
  show ?thesis using p w callback_after_teardown [OF p w, of 9] by simp
qed

section \<open>The info snapshot\<close>




end
